theory Spec2Isabelle
  imports Complex_Main
begin

section \<open>Python values\<close>

text \<open>
  The scraper handles the values that \<^verbatim>\<open>response.json()\<close> produces. \<open>PyNone\<close> is Python's
  \<^verbatim>\<open>None\<close> (JSON \<^verbatim>\<open>null\<close>). A dict is an association list read with \<open>map_of\<close>: the
  value of a key is its first binding. \<open>PyFloat\<close> stands for the finite floats; NaN and the
  infinities are left out. A string is a list of 8-bit characters, read as the code points
  0 to 255.
\<close>

datatype pyval =
    PyNone
  | PyBool bool
  | PyInt int
  | PyFloat real
  | PyStr string
  | PyList "pyval list"
  | PyDict "(string \<times> pyval) list"

text \<open>The exceptions that no handler of the scraper catches.\<close>

datatype py_error = AttributeError | TypeError | EOFError | ValueError | OverflowError

definition bind_exc :: "py_error + 'a \<Rightarrow> ('a \<Rightarrow> py_error + 'b) \<Rightarrow> py_error + 'b" where
  "bind_exc m f = (case m of Inl e \<Rightarrow> Inl e | Inr x \<Rightarrow> f x)"

text \<open>\<^verbatim>\<open>d.get(key, default)\<close>: only a dict has the method.\<close>

fun py_get :: "pyval \<Rightarrow> string \<Rightarrow> pyval \<Rightarrow> py_error + pyval" where
  "py_get (PyDict kvs) k d = Inr (case map_of kvs k of Some v \<Rightarrow> v | None \<Rightarrow> d)"
| "py_get _ k d = Inl AttributeError"

definition dict_keys :: "(string \<times> pyval) list \<Rightarrow> string list" where
  "dict_keys kvs = remdups (map fst kvs)"

text \<open>\<^verbatim>\<open>len(v)\<close>.\<close>

fun py_len :: "pyval \<Rightarrow> py_error + nat" where
  "py_len (PyList xs) = Inr (length xs)"
| "py_len (PyStr s) = Inr (length s)"
| "py_len (PyDict kvs) = Inr (length (dict_keys kvs))"
| "py_len _ = Inl TypeError"

text \<open>\<^verbatim>\<open>for x in v\<close>: the elements of a list, the characters of a string, the keys of a dict.\<close>

fun py_iter :: "pyval \<Rightarrow> py_error + pyval list" where
  "py_iter (PyList xs) = Inr xs"
| "py_iter (PyStr s) = Inr (map (\<lambda>c. PyStr [c]) s)"
| "py_iter (PyDict kvs) = Inr (map PyStr (dict_keys kvs))"
| "py_iter _ = Inl TypeError"

text \<open>\<^verbatim>\<open>needle in hay\<close> on strings: \<open>needle\<close> occurs as a contiguous run of \<open>hay\<close>.\<close>

fun starts_with :: "string \<Rightarrow> string \<Rightarrow> bool" where
  "starts_with [] hay = True"
| "starts_with (n # ns) [] = False"
| "starts_with (n # ns) (h # hs) = (n = h \<and> starts_with ns hs)"

fun str_contains :: "string \<Rightarrow> string \<Rightarrow> bool" where
  "str_contains needle [] = (needle = [])"
| "str_contains needle (h # hs) = (starts_with needle (h # hs) \<or> str_contains needle hs)"

text \<open>\<^verbatim>\<open>key in v\<close> for a string key.\<close>

fun py_in :: "string \<Rightarrow> pyval \<Rightarrow> py_error + bool" where
  "py_in k (PyDict kvs) = Inr (map_of kvs k \<noteq> None)"
| "py_in k (PyList xs) = Inr (PyStr k \<in> set xs)"
| "py_in k (PyStr s) = Inr (str_contains k s)"
| "py_in k _ = Inl TypeError"

text \<open>
  \<^verbatim>\<open>s.lower()\<close>. The letters A to Z are mapped. Python maps the accented capitals (codes
  192 to 222) as well, to other codes above 127; the scraper only searches a lower-cased
  string for "recaptcha" or "session" or compares it with "quit", and those tests come out
  the same.
\<close>

definition lower_char :: "char \<Rightarrow> char" where
  "lower_char c =
     (case map_of (zip ''ABCDEFGHIJKLMNOPQRSTUVWXYZ'' ''abcdefghijklmnopqrstuvwxyz'') c of
        Some l \<Rightarrow> l
      | None \<Rightarrow> c)"

definition lower :: "string \<Rightarrow> string" where
  "lower s = map lower_char s"

fun py_lower :: "pyval \<Rightarrow> py_error + string" where
  "py_lower (PyStr s) = Inr (lower s)"
| "py_lower _ = Inl AttributeError"

text \<open>
  \<^verbatim>\<open>s.strip()\<close> removes the characters for which \<^verbatim>\<open>str.isspace\<close> holds from both ends:
  among the code points 0 to 255 these are 9 to 13, 28 to 32, 133 (next line) and 160
  (no-break space).
\<close>

definition is_space :: "char \<Rightarrow> bool" where
  "is_space c =
     (let n = (of_char c :: nat) in
      (9 \<le> n \<and> n \<le> 13) \<or> (28 \<le> n \<and> n \<le> 32) \<or> n = 133 \<or> n = 160)"

definition strip :: "string \<Rightarrow> string" where
  "strip s = rev (dropWhile is_space (rev (dropWhile is_space s)))"

text \<open>
  \<^verbatim>\<open>current_page >= total_pages\<close> and \<^verbatim>\<open>current_page <= total_pages\<close>: an int is
  compared with a number (a bool counts as 0 or 1); any other right-hand side raises.
\<close>

fun py_ge :: "int \<Rightarrow> pyval \<Rightarrow> py_error + bool" where
  "py_ge c (PyInt n) = Inr (c \<ge> n)"
| "py_ge c (PyFloat r) = Inr (real_of_int c \<ge> r)"
| "py_ge c (PyBool b) = Inr (c \<ge> (if b then 1 else 0))"
| "py_ge c _ = Inl TypeError"

fun py_le :: "int \<Rightarrow> pyval \<Rightarrow> py_error + bool" where
  "py_le c (PyInt n) = Inr (c \<le> n)"
| "py_le c (PyFloat r) = Inr (real_of_int c \<le> r)"
| "py_le c (PyBool b) = Inr (c \<le> (if b then 1 else 0))"
| "py_le c _ = Inl TypeError"

section \<open>Field extractor\<close>

text \<open>The dict that \<^verbatim>\<open>extract_needed_fields\<close> returns: seven keys, each holding a value.\<close>

record filtered =
  business_name :: pyval
  registration_id :: pyval
  status :: pyval
  filing_date :: pyval
  agent_name :: pyval
  agent_address :: pyval
  agent_email :: pyval

definition extract_needed_fields :: "pyval \<Rightarrow> py_error + filtered" where
  "extract_needed_fields result =
     bind_exc (py_get result ''agent'' (PyDict [])) (\<lambda>agent.
     bind_exc (py_get result ''businessName'' (PyStr '''')) (\<lambda>v1.
     bind_exc (py_get result ''registrationId'' (PyStr '''')) (\<lambda>v2.
     bind_exc (py_get result ''status'' (PyStr '''')) (\<lambda>v3.
     bind_exc (py_get result ''filingDate'' (PyStr '''')) (\<lambda>v4.
     bind_exc (py_get agent ''name'' (PyStr '''')) (\<lambda>v5.
     bind_exc (py_get agent ''address'' (PyStr '''')) (\<lambda>v6.
     bind_exc (py_get agent ''email'' (PyStr '''')) (\<lambda>v7.
       Inr \<lparr>business_name = v1, registration_id = v2, status = v3, filing_date = v4,
            agent_name = v5, agent_address = v6, agent_email = v7\<rparr>))))))))"

text \<open>The list comprehension over the raw results: the first record that raises ends it.\<close>

fun extract_all :: "pyval list \<Rightarrow> py_error + filtered list" where
  "extract_all [] = Inr []"
| "extract_all (r # rs) =
     bind_exc (extract_needed_fields r) (\<lambda>f.
     bind_exc (extract_all rs) (\<lambda>fs. Inr (f # fs)))"

section \<open>Event log and effects\<close>

text \<open>
  One call of \<^verbatim>\<open>log_message\<close> writes one line: query, page or phase marker, status tag
  and detail (the time stamp comes from the clock and is left out). The detail is kept as the
  message with the values that its f-string interpolates.
\<close>

datatype log_status = SUCCESS | ERROR | RETRY | SESSION_START | NEW_SESSION | STOPPED | COMPLETED

datatype page_marker =
    Page int
  | START
  | PageRange pyval  \<comment> \<open>\<^verbatim>\<open>f"1-{total_pages}"\<close>\<close>

datatype detail =
    Forbidden403  \<comment> \<open>403 Forbidden - Session expired or ReCAPTCHA required\<close>
  | SessionErrorBody pyval  \<comment> \<open>Session/ReCAPTCHA error: \<^verbatim>\<open>data.get('error')\<close>\<close>
  | Retrieved nat  \<comment> \<open>Retrieved n results\<close>
  | TimeoutAfter int  \<comment> \<open>Timeout after n attempts\<close>
  | TimeoutAttempt int int  \<comment> \<open>Timeout, attempt i/n\<close>
  | SessionErrorExc string  \<comment> \<open>Session/ReCAPTCHA error: e\<close>
  | FailedAfter int string  \<comment> \<open>Failed after n attempts: e\<close>
  | AttemptFailed int int string  \<comment> \<open>Attempt i/n: e\<close>
  | StartingScrape string  \<comment> \<open>Starting scrape for query: q\<close>
  | UserQuit  \<comment> \<open>User chose to quit\<close>
  | EnteredNewSession int  \<comment> \<open>Entered new session ID, resuming from page p\<close>
  | FailedAfterRetries  \<comment> \<open>Failed after retries\<close>
  | AllPagesFetched int  \<comment> \<open>All pages fetched, total results: n\<close>

text \<open>
  What the scraper does to the world, in order: the GET request (query, page, session
  header), a log line, \<^verbatim>\<open>time.sleep\<close>, the operator prompt (it shows the page to resume
  from) and the append to the output file.
\<close>

datatype effect =
    HttpGet string int string
  | Log string page_marker log_status detail
  | Sleep real
  | Prompt int
  | AppendResults "filtered list"

section \<open>Page fetcher\<close>

text \<open>
  What the remote side does to one attempt. \<open>GetTimeout\<close>: \<^verbatim>\<open>requests.get\<close> raises
  \<^verbatim>\<open>Timeout\<close>. \<open>GetError msg r\<close>: it raises another \<^verbatim>\<open>RequestException\<close> \<open>e\<close> with
  \<^verbatim>\<open>str(e)\<close> = \<open>msg\<close> and \<open>r\<close> the status code of \<^verbatim>\<open>e.response\<close>, if there is one.
  \<open>Response sc http_error body\<close>: it returns a response with status code \<open>sc\<close>;
  \<open>http_error\<close> is the text of the \<^verbatim>\<open>HTTPError\<close> that \<^verbatim>\<open>raise_for_status\<close> raises for
  it (status, reason phrase and URL, put together by the library), and \<open>body\<close> is what
  \<^verbatim>\<open>response.json()\<close> gives: the parsed value, or the text of the decode error, which is a
  \<^verbatim>\<open>RequestException\<close> in the library.
\<close>

datatype http_outcome =
    GetTimeout
  | GetError string "int option"
  | Response int string "string + pyval"

datatype exc =
    Timeout
  | RequestException string "int option"
  | Uncaught py_error

type_synonym fetched = "pyval \<times> pyval"

text \<open>Lines 150 to 152: is the body a recaptcha or session error?\<close>

definition session_error :: "pyval \<Rightarrow> py_error + bool" where
  "session_error data =
     bind_exc (py_in ''error'' data) (\<lambda>has_error.
       if has_error then
         bind_exc (py_get data ''error'' (PyStr '''')) (\<lambda>v.
         bind_exc (py_lower v) (\<lambda>error_msg.
           Inr (str_contains ''recaptcha'' error_msg \<or> str_contains ''session'' error_msg)))
       else Inr False)"

text \<open>The try block from the parsed body on.\<close>

definition check_body :: "string \<Rightarrow> int \<Rightarrow> pyval \<Rightarrow> effect list \<times> (exc + fetched)" where
  "check_body query page data =
     (case session_error data of
        Inl e \<Rightarrow> ([], Inl (Uncaught e))
      | Inr True \<Rightarrow>
          (case py_get data ''error'' PyNone of
             Inl e \<Rightarrow> ([], Inl (Uncaught e))
           | Inr v \<Rightarrow>
               ([Log query (Page page) ERROR (SessionErrorBody v)],
                Inr (PyNone, PyStr ''403'')))
      | Inr False \<Rightarrow>
          (case bind_exc (py_get data ''results'' (PyList [])) py_len of
             Inl e \<Rightarrow> ([], Inl (Uncaught e))
           | Inr n \<Rightarrow>
               ([Log query (Page page) SUCCESS (Retrieved n)], Inr (data, PyNone))))"

text \<open>The whole try block of one attempt.\<close>

definition try_body ::
  "string \<Rightarrow> int \<Rightarrow> string \<Rightarrow> http_outcome \<Rightarrow> effect list \<times> (exc + fetched)" where
  "try_body query page session_id outcome =
     (case outcome of
        GetTimeout \<Rightarrow> ([HttpGet query page session_id], Inl Timeout)
      | GetError msg r \<Rightarrow> ([HttpGet query page session_id], Inl (RequestException msg r))
      | Response sc http_error body \<Rightarrow>
          if sc = 403 then
            ([HttpGet query page session_id, Log query (Page page) ERROR Forbidden403],
             Inr (PyNone, PyStr ''403''))
          else if 400 \<le> sc \<and> sc < 600 then
            ([HttpGet query page session_id], Inl (RequestException http_error (Some sc)))
          else
            (case body of
               Inl msg \<Rightarrow> ([HttpGet query page session_id], Inl (RequestException msg None))
             | Inr data \<Rightarrow>
                 (case check_body query page data of
                    (effs, r) \<Rightarrow> (HttpGet query page session_id # effs, r))))"

text \<open>
  \<^verbatim>\<open>e.response and e.response.status_code == 403\<close>: a response object is truthy only when
  its status is no error status.
\<close>

definition response_is_403 :: "int option \<Rightarrow> bool" where
  "response_is_403 r =
     (case r of None \<Rightarrow> False | Some sc \<Rightarrow> \<not> (400 \<le> sc \<and> sc < 600) \<and> sc = 403)"

datatype step = Return fetched | Retry | Raise py_error

text \<open>The except clauses.\<close>

definition handle :: "string \<Rightarrow> int \<Rightarrow> int \<Rightarrow> int \<Rightarrow> exc \<Rightarrow> effect list \<times> step" where
  "handle query page max_retries attempt x =
     (case x of
        Timeout \<Rightarrow>
          if attempt \<ge> max_retries then
            ([Log query (Page page) ERROR (TimeoutAfter (max_retries + 1))],
             Return (PyNone, PyStr ''timeout''))
          else
            ([Log query (Page page) RETRY (TimeoutAttempt (attempt + 1) (max_retries + 1)),
              Sleep 2], Retry)
      | RequestException msg r \<Rightarrow>
          (let error_str = lower msg in
           if str_contains ''recaptcha'' error_str \<or> str_contains ''session'' error_str
              \<or> response_is_403 r then
             ([Log query (Page page) ERROR (SessionErrorExc msg)],
              Return (PyNone, PyStr ''403''))
           else if attempt \<ge> max_retries then
             ([Log query (Page page) ERROR (FailedAfter (max_retries + 1) msg)],
              Return (PyNone, PyStr ''other''))
           else
             ([Log query (Page page) RETRY (AttemptFailed (attempt + 1) (max_retries + 1) msg),
               Sleep 2], Retry))
      | Uncaught e \<Rightarrow> ([], Raise e))"

definition attempt_once ::
  "string \<Rightarrow> int \<Rightarrow> string \<Rightarrow> int \<Rightarrow> int \<Rightarrow> http_outcome \<Rightarrow> effect list \<times> step" where
  "attempt_once query page session_id max_retries attempt outcome =
     (case try_body query page session_id outcome of
        (effs, Inr r) \<Rightarrow> (effs, Return r)
      | (effs, Inl x) \<Rightarrow>
          (case handle query page max_retries attempt x of
             (effs', s) \<Rightarrow> (effs @ effs', s)))"

text \<open>
  The while loop of \<^verbatim>\<open>fetch_page\<close>; \<open>outcomes i\<close> is what happens to the attempt made
  with \<^verbatim>\<open>attempt == i\<close>.
\<close>

function fetch_loop ::
  "string \<Rightarrow> int \<Rightarrow> string \<Rightarrow> (int \<Rightarrow> http_outcome) \<Rightarrow> int \<Rightarrow> int
     \<Rightarrow> effect list \<times> (py_error + fetched)" where
  "fetch_loop query page session_id outcomes max_retries attempt =
     (if attempt \<le> max_retries then
        (case attempt_once query page session_id max_retries attempt (outcomes attempt) of
           (effs, Return r) \<Rightarrow> (effs, Inr r)
         | (effs, Raise e) \<Rightarrow> (effs, Inl e)
         | (effs, Retry) \<Rightarrow>
             (case fetch_loop query page session_id outcomes max_retries (attempt + 1) of
                (effs', r) \<Rightarrow> (effs @ effs', r)))
      else ([], Inr (PyNone, PyStr ''other'')))"
  by pat_completeness auto
termination
  by (relation "measure (\<lambda>(query, page, session_id, outcomes, max_retries, attempt).
        nat (max_retries + 1 - attempt))") auto

declare fetch_loop.simps [simp del]

definition fetch_page ::
  "string \<Rightarrow> int \<Rightarrow> string \<Rightarrow> (int \<Rightarrow> http_outcome) \<Rightarrow> int
     \<Rightarrow> effect list \<times> (py_error + fetched)" where
  "fetch_page query page session_id outcomes max_retries =
     fetch_loop query page session_id outcomes max_retries 0"

section \<open>Pagination driver\<close>

text \<open>
  The local variables of \<^verbatim>\<open>fetch_all_pages\<close>, the contents of the output file and the
  effects so far. \<open>total_pages = PyNone\<close> is \<^verbatim>\<open>total_pages is None\<close>.
\<close>

record driver_state =
  session_id :: string
  current_page :: int
  total_pages :: pyval
  total_results_collected :: int
  output_file :: "filtered list"
  trace :: "effect list"

text \<open>
  What the outside does during one pass of the driver's loop: the outcome of each attempt of
  the fetch, and the line the operator types if asked (\<open>None\<close>: end of input).
\<close>

record iter_env =
  responses :: "int \<Rightarrow> http_outcome"
  operator :: "string option"

datatype control = Continue | Break | Crash py_error

text \<open>Lines 223 to 240: the prompt for a new session ID.\<close>

definition renew :: "string \<Rightarrow> string option \<Rightarrow> driver_state \<Rightarrow> control \<times> driver_state" where
  "renew query answer st =
     (case answer of
        None \<Rightarrow> (Crash EOFError, st\<lparr>trace := trace st @ [Prompt (current_page st)]\<rparr>)
      | Some raw \<Rightarrow>
          (let new_session_id = strip raw in
           if lower new_session_id = ''quit'' then
             (Break, st\<lparr>trace := trace st @
                [Prompt (current_page st),
                 Log query (Page (current_page st)) STOPPED UserQuit]\<rparr>)
           else
             (Continue, st\<lparr>session_id := new_session_id,
                trace := trace st @
                  [Prompt (current_page st),
                   Log query (Page (current_page st)) NEW_SESSION
                     (EnteredNewSession (current_page st))]\<rparr>)))"

text \<open>Lines 247 to 250: pagination info from the first page.\<close>

definition capture_total :: "pyval \<Rightarrow> driver_state \<Rightarrow> py_error + driver_state" where
  "capture_total page_data st =
     (if total_pages st = PyNone then
        bind_exc (py_get page_data ''totalPages'' (PyInt 1)) (\<lambda>tp.
        bind_exc (py_get page_data ''total'' (PyInt 0)) (\<lambda>total_results.
          Inr (st\<lparr>total_pages := tp\<rparr>)))
      else Inr st)"

text \<open>Lines 253 to 260: filter the records, append them to the file, count them.\<close>

definition persist :: "pyval \<Rightarrow> driver_state \<Rightarrow> py_error + driver_state" where
  "persist page_data st =
     bind_exc (py_get page_data ''results'' (PyList [])) (\<lambda>raw_results.
     bind_exc (py_iter raw_results) (\<lambda>items.
     bind_exc (extract_all items) (\<lambda>filtered_results.
       Inr (st\<lparr>total_results_collected :=
                 total_results_collected st + int (length filtered_results),
               output_file := output_file st @ filtered_results,
               trace := trace st @ [AppendResults filtered_results]\<rparr>))))"

text \<open>
  \<^verbatim>\<open>time.sleep(secs)\<close> for a finite number of seconds. The interpreter first converts the
  duration to 64-bit nanoseconds and raises \<^verbatim>\<open>OverflowError\<close> when it does not fit, then
  raises \<^verbatim>\<open>ValueError\<close> for a negative one; otherwise the call sleeps.
\<close>

definition time_sleep :: "real \<Rightarrow> py_error + effect list" where
  "time_sleep secs =
     (if secs * 10 ^ 9 < - (2 ^ 63) \<or> secs * 10 ^ 9 \<ge> 2 ^ 63 then Inl OverflowError
      else if secs < 0 then Inl ValueError
      else Inr [Sleep secs])"

text \<open>Lines 262 to 274: last page reached, or on to the next one.\<close>

definition advance :: "string \<Rightarrow> real \<Rightarrow> driver_state \<Rightarrow> control \<times> driver_state" where
  "advance query delay st =
     (case py_ge (current_page st) (total_pages st) of
        Inl e \<Rightarrow> (Crash e, st)
      | Inr True \<Rightarrow>
          (Break, st\<lparr>trace := trace st @
             [Log query (PageRange (total_pages st)) COMPLETED
                (AllPagesFetched (total_results_collected st))]\<rparr>)
      | Inr False \<Rightarrow>
          (let st' = st\<lparr>current_page := current_page st + 1\<rparr> in
           case py_le (current_page st') (total_pages st') of
             Inl e \<Rightarrow> (Crash e, st')
           | Inr True \<Rightarrow>
               (case time_sleep delay of
                  Inl e \<Rightarrow> (Crash e, st')
                | Inr effs \<Rightarrow> (Continue, st'\<lparr>trace := trace st' @ effs\<rparr>))
           | Inr False \<Rightarrow> (Continue, st')))"

definition process_page ::
  "string \<Rightarrow> real \<Rightarrow> pyval \<Rightarrow> driver_state \<Rightarrow> control \<times> driver_state" where
  "process_page query delay page_data st =
     (case capture_total page_data st of
        Inl e \<Rightarrow> (Crash e, st)
      | Inr st1 \<Rightarrow>
          (case persist page_data st1 of
             Inl e \<Rightarrow> (Crash e, st1)
           | Inr st2 \<Rightarrow> advance query delay st2))"

text \<open>One pass of the \<^verbatim>\<open>while True\<close> loop; the fetch uses the default \<^verbatim>\<open>max_retries=2\<close>.\<close>

definition iteration ::
  "string \<Rightarrow> real \<Rightarrow> iter_env \<Rightarrow> driver_state \<Rightarrow> control \<times> driver_state" where
  "iteration query delay env st =
     (case fetch_page query (current_page st) (session_id st) (responses env) 2 of
        (effs, r) \<Rightarrow>
          (let st1 = st\<lparr>trace := trace st @ effs\<rparr> in
           case r of
             Inl e \<Rightarrow> (Crash e, st1)
           | Inr (page_data, error_type) \<Rightarrow>
               if page_data = PyNone then
                 if error_type = PyStr ''timeout'' \<or> error_type = PyStr ''403'' then
                   renew query (operator env) st1
                 else
                   (Break, st1\<lparr>trace := trace st1 @
                      [Log query (Page (current_page st1)) STOPPED FailedAfterRetries]\<rparr>)
               else process_page query delay page_data st1))"

text \<open>
  The loop, run against what the outside does in its successive passes. It may go on for
  ever, so a run is followed along a finite list of passes: \<open>Running\<close> says that the loop has
  not left after them, \<open>Returned n\<close> that the function has returned \<open>n\<close>, \<open>Raised e\<close> that an
  exception has ended it.
\<close>

datatype run_result = Running | Returned int | Raised py_error

fun driver_loop ::
  "string \<Rightarrow> real \<Rightarrow> iter_env list \<Rightarrow> driver_state \<Rightarrow> run_result \<times> driver_state" where
  "driver_loop query delay [] st = (Running, st)"
| "driver_loop query delay (env # envs) st =
     (case iteration query delay env st of
        (Continue, st') \<Rightarrow> driver_loop query delay envs st'
      | (Break, st') \<Rightarrow> (Returned (total_results_collected st'), st')
      | (Crash e, st') \<Rightarrow> (Raised e, st'))"

text \<open>\<^verbatim>\<open>setup_output_file\<close>: a missing file is created holding the empty list.\<close>

definition setup_output_file :: "filtered list option \<Rightarrow> filtered list" where
  "setup_output_file existing = (case existing of None \<Rightarrow> [] | Some rs \<Rightarrow> rs)"

text \<open>The state in which \<^verbatim>\<open>fetch_all_pages\<close> enters its loop, the session start logged.\<close>

definition initial_state ::
  "string \<Rightarrow> string \<Rightarrow> int \<Rightarrow> filtered list option \<Rightarrow> driver_state" where
  "initial_state query session start_page existing =
     \<lparr>session_id = session, current_page = start_page, total_pages = PyNone,
      total_results_collected = 0, output_file = setup_output_file existing,
      trace = [Log query START SESSION_START (StartingScrape query)]\<rparr>"

definition fetch_all_pages ::
  "string \<Rightarrow> string \<Rightarrow> string \<Rightarrow> int \<Rightarrow> real \<Rightarrow> filtered list option \<Rightarrow> iter_env list
     \<Rightarrow> run_result \<times> driver_state" where
  "fetch_all_pages query session start_datetime start_page delay existing envs =
     driver_loop query delay envs (initial_state query session start_page existing)"

text \<open>An outside that answers every attempt of a fetch in the same way.\<close>

definition always :: "http_outcome \<Rightarrow> int \<Rightarrow> http_outcome" where
  "always outcome attempt = outcome"

section \<open>Evaluation\<close>

text \<open>The equations that run the model on a concrete input.\<close>

lemmas run_defs =
  fetch_page_def fetch_loop.simps attempt_once_def try_body_def handle_def check_body_def
  session_error_def bind_exc_def always_def lower_def lower_char_def strip_def is_space_def
  initial_state_def setup_output_file_def extract_needed_fields_def response_is_403_def

lemmas driver_defs =
  fetch_all_pages_def iteration_def renew_def process_page_def capture_total_def persist_def
  advance_def time_sleep_def Let_def

section \<open>Properties of the string helpers\<close>

lemma starts_with_iff: "starts_with n h \<longleftrightarrow> (\<exists>post. h = n @ post)"
  by (induction n h rule: starts_with.induct) auto

text \<open>\<open>str_contains\<close> is the substring test.\<close>

lemma str_contains_iff: "str_contains n h \<longleftrightarrow> (\<exists>pre post. h = pre @ n @ post)"
proof (induction h)
  case Nil
  then show ?case by auto
next
  case (Cons a h)
  show ?case
  proof
    assume "str_contains n (a # h)"
    then consider "starts_with n (a # h)" | "str_contains n h" by auto
    then show "\<exists>pre post. a # h = pre @ n @ post"
    proof cases
      case 1
      then obtain post where "a # h = n @ post" using starts_with_iff by blast
      then have "a # h = [] @ n @ post" by simp
      then show ?thesis by blast
    next
      case 2
      then obtain pre post where "h = pre @ n @ post" using Cons.IH by blast
      then have "a # h = (a # pre) @ n @ post" by simp
      then show ?thesis by blast
    qed
  next
    assume "\<exists>pre post. a # h = pre @ n @ post"
    then obtain pre post where eq: "a # h = pre @ n @ post" by blast
    show "str_contains n (a # h)"
    proof (cases pre)
      case Nil
      then have "starts_with n (a # h)" using eq starts_with_iff by auto
      then show ?thesis by simp
    next
      case (Cons b pre')
      then have "h = pre' @ n @ post" using eq by simp
      then have "str_contains n h" using Cons.IH by blast
      then show ?thesis by simp
    qed
  qed
qed

text \<open>Padding by a no-break space or a next-line character is stripped like a blank.\<close>

lemma strip_code_points:
  "strip (char_of (160::nat) # ''quit'' @ [char_of (133::nat)]) = ''quit''"
  by (simp add: strip_def is_space_def)

text \<open>\<open>lower\<close> maps the capital letters and leaves every other character.\<close>

lemma lower_letters:
  "lower ''ABCDEFGHIJKLMNOPQRSTUVWXYZ az 09 @[_{'' = ''abcdefghijklmnopqrstuvwxyz az 09 @[_{''"
  by (simp add: lower_def lower_char_def)

section \<open>Field extractor\<close>

text \<open>
  C7, as the code has it. For a raw record that is a dict whose \<^verbatim>\<open>agent\<close> entry is missing
  or is itself a dict, the extractor returns the seven fields; each one is the value stored
  under its source key, whatever the type of that value, and the empty string when the key
  is missing (the agent fields are read from the agent dict, all empty when there is none).
\<close>

theorem extract_needed_fields_dict:
  assumes "map_of kvs ''agent'' = None \<and> akvs = [] \<or> map_of kvs ''agent'' = Some (PyDict akvs)"
  shows "extract_needed_fields (PyDict kvs) =
     Inr \<lparr>business_name =
            (case map_of kvs ''businessName'' of None \<Rightarrow> PyStr '''' | Some v \<Rightarrow> v),
          registration_id =
            (case map_of kvs ''registrationId'' of None \<Rightarrow> PyStr '''' | Some v \<Rightarrow> v),
          status = (case map_of kvs ''status'' of None \<Rightarrow> PyStr '''' | Some v \<Rightarrow> v),
          filing_date = (case map_of kvs ''filingDate'' of None \<Rightarrow> PyStr '''' | Some v \<Rightarrow> v),
          agent_name = (case map_of akvs ''name'' of None \<Rightarrow> PyStr '''' | Some v \<Rightarrow> v),
          agent_address = (case map_of akvs ''address'' of None \<Rightarrow> PyStr '''' | Some v \<Rightarrow> v),
          agent_email = (case map_of akvs ''email'' of None \<Rightarrow> PyStr '''' | Some v \<Rightarrow> v)\<rparr>"
proof -
  have agent: "py_get (PyDict kvs) ''agent'' (PyDict []) = Inr (PyDict akvs)"
    using assms by auto
  show ?thesis
    unfolding extract_needed_fields_def agent by (simp add: bind_exc_def)
qed

theorem extract_needed_fields_dict_witness:
  "map_of [(''businessName'', PyStr ''Acme Sub''), (''status'', PyInt 7),
           (''agent'', PyDict [(''email'', PyStr ''j@acme.com'')])] ''agent'' =
     Some (PyDict [(''email'', PyStr ''j@acme.com'')])
   \<and> extract_needed_fields
       (PyDict [(''businessName'', PyStr ''Acme Sub''), (''status'', PyInt 7),
                (''agent'', PyDict [(''email'', PyStr ''j@acme.com'')])]) =
     Inr \<lparr>business_name = PyStr ''Acme Sub'', registration_id = PyStr '''', status = PyInt 7,
          filing_date = PyStr '''', agent_name = PyStr '''', agent_address = PyStr '''',
          agent_email = PyStr ''j@acme.com''\<rparr>"
  using extract_needed_fields_dict
    [of "[(''businessName'', PyStr ''Acme Sub''), (''status'', PyInt 7),
          (''agent'', PyDict [(''email'', PyStr ''j@acme.com'')])]"
        "[(''email'', PyStr ''j@acme.com'')]"]
  by simp

text \<open>
  C7 as stated fails: a value that is not a string is passed on, not replaced by the empty
  string, and a record whose \<^verbatim>\<open>agent\<close> is \<^verbatim>\<open>null\<close> makes the extractor raise.
\<close>

theorem extract_needed_fields_counterexample:
  "extract_needed_fields (PyDict [(''businessName'', PyInt 123)]) =
     Inr \<lparr>business_name = PyInt 123, registration_id = PyStr '''', status = PyStr '''',
          filing_date = PyStr '''', agent_name = PyStr '''', agent_address = PyStr '''',
          agent_email = PyStr ''''\<rparr>
   \<and> extract_needed_fields (PyDict [(''agent'', PyNone)]) = Inl AttributeError"
  by (simp add: extract_needed_fields_def bind_exc_def)

text \<open>
  The list comprehension applies the extractor to every record, in order, and raises as soon
  as the extractor raises on one.
\<close>

lemma extract_all_iff:
  "extract_all rs = Inr fs \<longleftrightarrow> list_all2 (\<lambda>r f. extract_needed_fields r = Inr f) rs fs"
proof (induction rs arbitrary: fs)
  case Nil
  then show ?case by auto
next
  case (Cons r rs)
  show ?case
  proof (cases "extract_needed_fields r")
    case (Inl e)
    then show ?thesis by (simp add: bind_exc_def list_all2_Cons1)
  next
    case f: (Inr f)
    show ?thesis
    proof (cases "extract_all rs")
      case (Inl e)
      then have "\<not> list_all2 (\<lambda>r f. extract_needed_fields r = Inr f) rs zs" for zs
        using Cons.IH [of zs] by simp
      then show ?thesis using f Inl by (simp add: bind_exc_def list_all2_Cons1)
    next
      case (Inr gs)
      then have "list_all2 (\<lambda>r f. extract_needed_fields r = Inr f) rs zs \<longleftrightarrow> gs = zs" for zs
        using Cons.IH [of zs] by simp
      then show ?thesis using f Inr by (auto simp: bind_exc_def list_all2_Cons1)
    qed
  qed
qed

lemma extract_all_length:
  "extract_all rs = Inr fs \<Longrightarrow> length fs = length rs"
  by (simp add: extract_all_iff list_all2_lengthD)

lemma extract_all_raises:
  "extract_needed_fields r = Inl e \<Longrightarrow> extract_all (r # rs) = Inl e"
  by (simp add: bind_exc_def)

text \<open>The records that the extractor accepts.\<close>

lemma extract_needed_fields_accepts:
  "(\<exists>f. extract_needed_fields r = Inr f) \<longleftrightarrow>
     (\<exists>kvs. r = PyDict kvs \<and>
        (map_of kvs ''agent'' = None \<or> (\<exists>akvs. map_of kvs ''agent'' = Some (PyDict akvs))))"
proof (cases r)
  case (PyDict kvs)
  show ?thesis
  proof (cases "map_of kvs ''agent''")
    case None
    then show ?thesis using PyDict by (simp add: extract_needed_fields_def bind_exc_def)
  next
    case (Some a)
    then show ?thesis using PyDict
      by (cases a) (simp_all add: extract_needed_fields_def bind_exc_def)
  qed
qed (simp_all add: extract_needed_fields_def bind_exc_def)

section \<open>Page fetcher\<close>

text \<open>The test on \<^verbatim>\<open>e.response\<close> in the second handler never holds.\<close>

lemma response_is_403_never: "\<not> response_is_403 r"
  by (cases r) (auto simp: response_is_403_def)

text \<open>The backoff of the fetcher is a duration that \<^verbatim>\<open>time.sleep\<close> accepts.\<close>

lemma time_sleep_backoff: "time_sleep 2 = Inr [Sleep 2]"
  by (simp add: time_sleep_def)

text \<open>When \<^verbatim>\<open>time.sleep\<close> sleeps and when it raises.\<close>

lemma time_sleep_accepts:
  "time_sleep secs = Inr effs \<longleftrightarrow> 0 \<le> secs \<and> secs * 10 ^ 9 < 2 ^ 63 \<and> effs = [Sleep secs]"
proof (cases "0 \<le> secs")
  case True
  then have "0 \<le> secs * 10 ^ 9" by simp
  moreover have "- (2 ^ 63) < (0::real)" by simp
  ultimately have "\<not> secs * 10 ^ 9 < - (2 ^ 63)" by linarith
  then show ?thesis using True by (auto simp: time_sleep_def)
next
  case False
  then show ?thesis by (auto simp: time_sleep_def)
qed

lemma time_sleep_raises:
  "time_sleep (- 1) = Inl ValueError" and "time_sleep (10 ^ 10) = Inl OverflowError"
  and "time_sleep (- (10 ^ 10)) = Inl OverflowError"
  by (simp_all add: time_sleep_def)

text \<open>
  C3. When every attempt times out, the fetcher (with its default budget of 2 retries) makes
  exactly three requests, sleeps 2 seconds between consecutive ones, writes one log line per
  attempt (RETRY, RETRY, ERROR) and returns no data with the error type \<^verbatim>\<open>'timeout'\<close>.
\<close>

theorem fetch_page_all_timeouts:
  "fetch_page query page session (\<lambda>i. GetTimeout) 2 =
     ([HttpGet query page session, Log query (Page page) RETRY (TimeoutAttempt 1 3), Sleep 2,
       HttpGet query page session, Log query (Page page) RETRY (TimeoutAttempt 2 3), Sleep 2,
       HttpGet query page session, Log query (Page page) ERROR (TimeoutAfter 3)],
      Inr (PyNone, PyStr ''timeout''))"
  by (simp add: fetch_page_def fetch_loop.simps attempt_once_def try_body_def handle_def)

lemma fetch_loop_return:
  assumes "attempt \<le> max_retries"
    and "attempt_once query page session max_retries attempt (outcomes attempt) = (effs, Return r)"
  shows "fetch_loop query page session outcomes max_retries attempt = (effs, Inr r)"
  by (subst fetch_loop.simps) (simp add: assms)

lemma session_error_found:
  assumes "map_of kvs ''error'' = Some (PyStr msg)"
  shows "session_error (PyDict kvs) =
     Inr (str_contains ''recaptcha'' (lower msg) \<or> str_contains ''session'' (lower msg))"
  using assms by (simp add: session_error_def bind_exc_def)

text \<open>
  C4. Whatever the attempt at which it arrives, a response with status 403 ends the fetch at
  once: one request, one ERROR line, no sleep and no further attempt, and the result is no
  data with the error type \<^verbatim>\<open>'403'\<close>. The same holds for a 2xx response whose body has
  an \<^verbatim>\<open>error\<close> text in which "recaptcha" or "session" occurs once the text is lower-cased.
\<close>

theorem fetch_session_invalid_no_retry:
  "(attempt \<le> max_retries \<and> outcomes attempt = Response 403 http_error body \<longrightarrow>
      fetch_loop query page session outcomes max_retries attempt =
        ([HttpGet query page session, Log query (Page page) ERROR Forbidden403],
         Inr (PyNone, PyStr ''403'')))
   \<and> (attempt \<le> max_retries \<and> outcomes attempt = Response sc http_error (Inr (PyDict kvs))
        \<and> 200 \<le> sc \<and> sc < 300 \<and> map_of kvs ''error'' = Some (PyStr msg)
        \<and> (str_contains ''recaptcha'' (lower msg) \<or> str_contains ''session'' (lower msg)) \<longrightarrow>
      fetch_loop query page session outcomes max_retries attempt =
        ([HttpGet query page session,
          Log query (Page page) ERROR (SessionErrorBody (PyStr msg))],
         Inr (PyNone, PyStr ''403'')))"
proof (intro conjI impI)
  assume a: "attempt \<le> max_retries \<and> outcomes attempt = Response 403 http_error body"
  then have "attempt_once query page session max_retries attempt (outcomes attempt) =
      ([HttpGet query page session, Log query (Page page) ERROR Forbidden403],
       Return (PyNone, PyStr ''403''))"
    by (simp add: attempt_once_def try_body_def)
  with a show "fetch_loop query page session outcomes max_retries attempt =
        ([HttpGet query page session, Log query (Page page) ERROR Forbidden403],
         Inr (PyNone, PyStr ''403''))"
    by (simp add: fetch_loop_return)
next
  assume a: "attempt \<le> max_retries \<and> outcomes attempt = Response sc http_error (Inr (PyDict kvs))
        \<and> 200 \<le> sc \<and> sc < 300 \<and> map_of kvs ''error'' = Some (PyStr msg)
        \<and> (str_contains ''recaptcha'' (lower msg) \<or> str_contains ''session'' (lower msg))"
  then have se: "session_error (PyDict kvs) = Inr True"
    using session_error_found [of kvs msg] by simp
  have "check_body query page (PyDict kvs) =
      ([Log query (Page page) ERROR (SessionErrorBody (PyStr msg))], Inr (PyNone, PyStr ''403''))"
    using a by (simp add: check_body_def se)
  with a have "attempt_once query page session max_retries attempt (outcomes attempt) =
      ([HttpGet query page session, Log query (Page page) ERROR (SessionErrorBody (PyStr msg))],
       Return (PyNone, PyStr ''403''))"
    by (simp add: attempt_once_def try_body_def)
  with a show "fetch_loop query page session outcomes max_retries attempt =
        ([HttpGet query page session,
          Log query (Page page) ERROR (SessionErrorBody (PyStr msg))],
         Inr (PyNone, PyStr ''403''))"
    by (simp add: fetch_loop_return)
qed

theorem fetch_session_invalid_no_retry_witness:
  "fetch_loop ''acme'' 4 ''sid'' (always (Response 403 ''403 Client Error'' (Inl ''no JSON''))) 2 1 =
     ([HttpGet ''acme'' 4 ''sid'', Log ''acme'' (Page 4) ERROR Forbidden403],
      Inr (PyNone, PyStr ''403''))
   \<and> str_contains ''session'' (lower ''Invalid SESSION token'')
   \<and> fetch_loop ''acme'' 4 ''sid''
       (always (Response 200 '''' (Inr (PyDict [(''error'', PyStr ''Invalid SESSION token'')])))) 2 0 =
     ([HttpGet ''acme'' 4 ''sid'',
       Log ''acme'' (Page 4) ERROR (SessionErrorBody (PyStr ''Invalid SESSION token''))],
      Inr (PyNone, PyStr ''403''))"
  using fetch_session_invalid_no_retry
      [of 1 2 "always (Response 403 ''403 Client Error'' (Inl ''no JSON''))"
          "''403 Client Error''" "Inl ''no JSON''" "''acme''" 4 "''sid''" 200 "[]" "[]"]
    fetch_session_invalid_no_retry
      [of 0 2 "always (Response 200 '''' (Inr (PyDict [(''error'', PyStr ''Invalid SESSION token'')])))"
          "''''" "Inr (PyDict [(''error'', PyStr ''Invalid SESSION token'')])" "''acme''" 4 "''sid''"
          200 "[(''error'', PyStr ''Invalid SESSION token'')]" "''Invalid SESSION token''"]
  by (simp add: always_def lower_def lower_char_def)

section \<open>Pagination driver\<close>

text \<open>A pass of the loop, by what the fetch returned.\<close>

lemma iteration_success:
  assumes "fetch_page query (current_page st) (session_id st) (responses env) 2 =
      (effs, Inr (PyDict kvs, PyNone))"
  shows "iteration query delay env st =
      process_page query delay (PyDict kvs) (st\<lparr>trace := trace st @ effs\<rparr>)"
  by (simp add: iteration_def assms)

lemma iteration_failure:
  assumes "fetch_page query (current_page st) (session_id st) (responses env) 2 =
      (effs, Inr (PyNone, PyStr kind))"
  shows "iteration query delay env st =
      (if kind = ''timeout'' \<or> kind = ''403'' then
         renew query (operator env) (st\<lparr>trace := trace st @ effs\<rparr>)
       else (Break, st\<lparr>trace := trace st @ effs @
               [Log query (Page (current_page st)) STOPPED FailedAfterRetries]\<rparr>))"
  by (simp add: iteration_def assms)

lemma persist_ok:
  assumes "map_of kvs ''results'' = None \<and> rs = [] \<or> map_of kvs ''results'' = Some (PyList rs)"
    and "list_all2 (\<lambda>r f. extract_needed_fields r = Inr f) rs fs"
  shows "persist (PyDict kvs) st =
     Inr (st\<lparr>total_results_collected := total_results_collected st + int (length fs),
            output_file := output_file st @ fs,
            trace := trace st @ [AppendResults fs]\<rparr>)"
proof -
  have g: "py_get (PyDict kvs) ''results'' (PyList []) = Inr (PyList rs)"
    using assms(1) by auto
  have e: "extract_all rs = Inr fs"
    using assms(2) by (simp add: extract_all_iff)
  show ?thesis
    unfolding persist_def g by (simp add: bind_exc_def e)
qed

lemma advance_collected:
  "total_results_collected (snd (advance query delay st)) = total_results_collected st"
  by (simp add: advance_def time_sleep_def Let_def split: sum.split bool.split)

lemma advance_output: "output_file (snd (advance query delay st)) = output_file st"
  by (simp add: advance_def time_sleep_def Let_def split: sum.split bool.split)

lemma advance_trace: "\<exists>rest. trace (snd (advance query delay st)) = trace st @ rest"
  by (simp add: advance_def time_sleep_def Let_def split: sum.split bool.split)

lemma capture_total_dict:
  "capture_total (PyDict kvs) st =
     Inr (if total_pages st = PyNone
          then st\<lparr>total_pages := (case map_of kvs ''totalPages'' of None \<Rightarrow> PyInt 1 | Some v \<Rightarrow> v)\<rparr>
          else st)"
  by (simp add: capture_total_def bind_exc_def)

lemma renew_total: "total_pages (snd (renew query answer st)) = total_pages st"
  by (simp add: renew_def Let_def split: option.split)

lemma advance_total: "total_pages (snd (advance query delay st)) = total_pages st"
  by (simp add: advance_def time_sleep_def Let_def split: sum.split bool.split)

lemma persist_total: "persist page_data st = Inr st' \<Longrightarrow> total_pages st' = total_pages st"
  by (auto simp: persist_def bind_exc_def split: sum.splits)

lemma capture_total_known:
  "total_pages st \<noteq> PyNone \<Longrightarrow> capture_total page_data st = Inr st"
  by (simp add: capture_total_def)

lemma process_page_total:
  assumes "capture_total page_data st = Inr st1"
  shows "total_pages (snd (process_page query delay page_data st)) = total_pages st1"
proof (cases "persist page_data st1")
  case (Inl e)
  then show ?thesis by (simp add: process_page_def assms)
next
  case (Inr st2)
  then show ?thesis
    using persist_total [OF Inr] by (simp add: process_page_def assms advance_total)
qed

lemma process_page_crash_total:
  assumes "capture_total page_data st = Inl e"
  shows "total_pages (snd (process_page query delay page_data st)) = total_pages st"
  by (simp add: process_page_def assms)

text \<open>Once the page count is known, no pass of the loop changes it.\<close>

lemma iteration_keeps_total:
  assumes "total_pages st \<noteq> PyNone"
  shows "total_pages (snd (iteration query delay env st)) = total_pages st"
proof (cases "fetch_page query (current_page st) (session_id st) (responses env) 2")
  case (Pair effs r)
  show ?thesis
  proof (cases r)
    case (Inl e)
    with Pair show ?thesis by (simp add: iteration_def)
  next
    case (Inr pr)
    obtain page_data error_type where pr: "pr = (page_data, error_type)" by (cases pr)
    have known: "total_pages (st\<lparr>trace := trace st @ effs\<rparr>) \<noteq> PyNone"
      using assms by simp
    have pp: "total_pages (snd (process_page query delay page_data (st\<lparr>trace := trace st @ effs\<rparr>)))
        = total_pages st"
      using process_page_total [OF capture_total_known [OF known]] by simp
    show ?thesis
      using Pair Inr pr pp by (simp add: iteration_def Let_def renew_total)
  qed
qed

lemma driver_loop_keeps_total:
  "total_pages st \<noteq> PyNone \<Longrightarrow>
     total_pages (snd (driver_loop query delay envs st)) = total_pages st"
proof (induction envs arbitrary: st)
  case Nil
  then show ?case by simp
next
  case (Cons env envs)
  obtain c st' where it: "iteration query delay env st = (c, st')"
    by (cases "iteration query delay env st")
  have keep: "total_pages st' = total_pages st"
    using iteration_keeps_total [OF Cons.prems, of query delay env] it by simp
  show ?case
  proof (cases c)
    case Continue
    then show ?thesis using it keep Cons.IH [of st'] Cons.prems by simp
  next
    case Break
    then show ?thesis using it keep by simp
  next
    case (Crash e)
    then show ?thesis using it keep by simp
  qed
qed

text \<open>
  C2. When the page count is still unknown and a fetch succeeds with a body that reports
  \<^verbatim>\<open>totalPages\<close> = \<open>n\<close>, the driver's page count is \<open>n\<close> after that pass and stays \<open>n\<close>
  however the run goes on, whatever the later pages report.
\<close>

theorem total_pages_first_success_wins:
  assumes "total_pages st = PyNone"
    and "fetch_page query (current_page st) (session_id st) (responses env) 2 =
      (effs, Inr (PyDict kvs, PyNone))"
    and "map_of kvs ''totalPages'' = Some (PyInt n)"
  shows "total_pages (snd (iteration query delay env st)) = PyInt n
    \<and> total_pages (snd (driver_loop query delay (env # envs) st)) = PyInt n"
proof -
  have c: "capture_total (PyDict kvs) (st\<lparr>trace := trace st @ effs\<rparr>) =
      Inr (st\<lparr>trace := trace st @ effs, total_pages := PyInt n\<rparr>)"
    using assms(1,3) by (simp add: capture_total_dict)
  have first: "total_pages (snd (iteration query delay env st)) = PyInt n"
    using process_page_total [OF c, of query delay] by (simp add: iteration_success [OF assms(2)])
  obtain c' st' where it: "iteration query delay env st = (c', st')"
    by (cases "iteration query delay env st")
  have n: "total_pages st' = PyInt n" using first it by simp
  have "total_pages (snd (driver_loop query delay (env # envs) st)) = PyInt n"
  proof (cases c')
    case Continue
    then show ?thesis
      using it n driver_loop_keeps_total [of st' query delay envs] by simp
  next
    case Break
    then show ?thesis using it n by simp
  next
    case (Crash e)
    then show ?thesis using it n by simp
  qed
  with first show ?thesis by simp
qed

theorem total_pages_first_success_wins_witness:
  "fetch_page ''acme'' 1 ''sid''
     (always (Response 200 '''' (Inr (PyDict [(''results'', PyList []), (''totalPages'', PyInt 5)])))) 2 =
     ([HttpGet ''acme'' 1 ''sid'', Log ''acme'' (Page 1) SUCCESS (Retrieved 0)],
      Inr (PyDict [(''results'', PyList []), (''totalPages'', PyInt 5)], PyNone))
   \<and> total_pages (snd (driver_loop ''acme'' 1
        [\<lparr>responses = always (Response 200 ''''
             (Inr (PyDict [(''results'', PyList []), (''totalPages'', PyInt 5)]))),
          operator = None\<rparr>,
         \<lparr>responses = always (Response 200 ''''
             (Inr (PyDict [(''results'', PyList []), (''totalPages'', PyInt 9)]))),
          operator = None\<rparr>]
        (initial_state ''acme'' ''sid'' 1 None))) = PyInt 5"
  using total_pages_first_success_wins
    [where query = "''acme''" and st = "initial_state ''acme'' ''sid'' 1 None"
       and env = "\<lparr>responses = always (Response 200 ''''
             (Inr (PyDict [(''results'', PyList []), (''totalPages'', PyInt 5)]))),
          operator = None\<rparr>"
       and effs = "[HttpGet ''acme'' 1 ''sid'', Log ''acme'' (Page 1) SUCCESS (Retrieved 0)]"
       and kvs = "[(''results'', PyList []), (''totalPages'', PyInt 5)]" and n = 5
       and delay = 1
       and envs = "[\<lparr>responses = always (Response 200 ''''
             (Inr (PyDict [(''results'', PyList []), (''totalPages'', PyInt 9)]))),
          operator = None\<rparr>]"]
  by (simp add: run_defs)

text \<open>
  C10, as the code has it. A 2xx response whose body has an \<^verbatim>\<open>error\<close> text with neither
  "recaptcha" nor "session" in it, and a results array or none, is a success of the fetcher:
  one request, one SUCCESS line with the number of results, the body returned with no error
  type. When every record of that array is one the extractor accepts, the driver appends the
  extractor's output for each record, in order, to the output file and adds their number to
  the running total.
\<close>

theorem fetch_other_error_is_success:
  "(attempt \<le> max_retries \<and> outcomes attempt = Response sc http_error (Inr (PyDict kvs))
      \<and> 200 \<le> sc \<and> sc < 300 \<and> map_of kvs ''error'' = Some (PyStr msg)
      \<and> \<not> str_contains ''recaptcha'' (lower msg) \<and> \<not> str_contains ''session'' (lower msg)
      \<and> (map_of kvs ''results'' = None \<and> rs = [] \<or> map_of kvs ''results'' = Some (PyList rs)) \<longrightarrow>
    fetch_loop query page session outcomes max_retries attempt =
      ([HttpGet query page session, Log query (Page page) SUCCESS (Retrieved (length rs))],
       Inr (PyDict kvs, PyNone)))
   \<and> (fetch_page query (current_page st) (session_id st) (responses env) 2 =
         (effs, Inr (PyDict kvs, PyNone))
      \<and> (map_of kvs ''results'' = None \<and> rs = [] \<or> map_of kvs ''results'' = Some (PyList rs))
      \<and> list_all2 (\<lambda>r f. extract_needed_fields r = Inr f) rs fs \<longrightarrow>
    output_file (snd (iteration query delay env st)) = output_file st @ fs
    \<and> total_results_collected (snd (iteration query delay env st)) =
        total_results_collected st + int (length rs)
    \<and> (\<exists>rest. trace (snd (iteration query delay env st)) =
          trace st @ effs @ AppendResults fs # rest))"
proof (intro conjI impI)
  assume a: "attempt \<le> max_retries \<and> outcomes attempt = Response sc http_error (Inr (PyDict kvs))
      \<and> 200 \<le> sc \<and> sc < 300 \<and> map_of kvs ''error'' = Some (PyStr msg)
      \<and> \<not> str_contains ''recaptcha'' (lower msg) \<and> \<not> str_contains ''session'' (lower msg)
      \<and> (map_of kvs ''results'' = None \<and> rs = [] \<or> map_of kvs ''results'' = Some (PyList rs))"
  then have se: "session_error (PyDict kvs) = Inr False"
    using session_error_found [of kvs msg] by simp
  have g: "py_get (PyDict kvs) ''results'' (PyList []) = Inr (PyList rs)"
    using a by auto
  have len: "bind_exc (py_get (PyDict kvs) ''results'' (PyList [])) py_len = Inr (length rs)"
    unfolding g by (simp add: bind_exc_def)
  have "check_body query page (PyDict kvs) =
      ([Log query (Page page) SUCCESS (Retrieved (length rs))], Inr (PyDict kvs, PyNone))"
    unfolding check_body_def se len by simp
  with a have "attempt_once query page session max_retries attempt (outcomes attempt) =
      ([HttpGet query page session, Log query (Page page) SUCCESS (Retrieved (length rs))],
       Return (PyDict kvs, PyNone))"
    by (simp add: attempt_once_def try_body_def)
  with a show "fetch_loop query page session outcomes max_retries attempt =
      ([HttpGet query page session, Log query (Page page) SUCCESS (Retrieved (length rs))],
       Inr (PyDict kvs, PyNone))"
    by (simp add: fetch_loop_return)
next
  assume b: "fetch_page query (current_page st) (session_id st) (responses env) 2 =
         (effs, Inr (PyDict kvs, PyNone))
      \<and> (map_of kvs ''results'' = None \<and> rs = [] \<or> map_of kvs ''results'' = Some (PyList rs))
      \<and> list_all2 (\<lambda>r f. extract_needed_fields r = Inr f) rs fs"
  define st1 where "st1 = (if total_pages st = PyNone
      then st\<lparr>trace := trace st @ effs,
              total_pages := (case map_of kvs ''totalPages'' of None \<Rightarrow> PyInt 1 | Some v \<Rightarrow> v)\<rparr>
      else st\<lparr>trace := trace st @ effs\<rparr>)"
  define st2 where "st2 = st1\<lparr>total_results_collected := total_results_collected st1 + int (length fs),
            output_file := output_file st1 @ fs,
            trace := trace st1 @ [AppendResults fs]\<rparr>"
  have c: "capture_total (PyDict kvs) (st\<lparr>trace := trace st @ effs\<rparr>) = Inr st1"
    by (simp add: capture_total_dict st1_def)
  have r: "map_of kvs ''results'' = None \<and> rs = [] \<or> map_of kvs ''results'' = Some (PyList rs)"
    and e: "list_all2 (\<lambda>r f. extract_needed_fields r = Inr f) rs fs"
    using b by simp_all
  have p: "persist (PyDict kvs) st1 = Inr st2"
    using persist_ok [OF r e, of st1] by (simp add: st2_def)
  have it: "iteration query delay env st = advance query delay st2"
    using b by (simp add: iteration_success process_page_def c p)
  have o: "output_file st2 = output_file st @ fs"
    and t: "trace st2 = trace st @ effs @ [AppendResults fs]"
    and n: "total_results_collected st2 = total_results_collected st + int (length rs)"
    using list_all2_lengthD [OF e] by (simp_all add: st2_def st1_def)
  show "output_file (snd (iteration query delay env st)) = output_file st @ fs"
    by (simp add: it advance_output o)
  show "total_results_collected (snd (iteration query delay env st)) =
        total_results_collected st + int (length rs)"
    by (simp add: it advance_collected n)
  obtain rest where "trace (snd (advance query delay st2)) = trace st2 @ rest"
    using advance_trace by blast
  then have "trace (snd (iteration query delay env st)) = trace st @ effs @ AppendResults fs # rest"
    by (simp add: it t)
  then show "\<exists>rest. trace (snd (iteration query delay env st)) =
          trace st @ effs @ AppendResults fs # rest"
    by blast
qed

theorem fetch_other_error_is_success_witness:
  "\<not> str_contains ''recaptcha'' (lower ''Rate limit'') \<and> \<not> str_contains ''session'' (lower ''Rate limit'')
   \<and> fetch_loop ''acme'' 4 ''sid''
       (always (Response 200 '''' (Inr (PyDict [(''error'', PyStr ''Rate limit''),
          (''results'', PyList [PyDict [(''businessName'', PyStr ''Acme Sub'')],
                                PyDict [(''status'', PyStr ''active'')]])])))) 2 0 =
     ([HttpGet ''acme'' 4 ''sid'', Log ''acme'' (Page 4) SUCCESS (Retrieved 2)],
      Inr (PyDict [(''error'', PyStr ''Rate limit''),
          (''results'', PyList [PyDict [(''businessName'', PyStr ''Acme Sub'')],
                                PyDict [(''status'', PyStr ''active'')]])], PyNone))
   \<and> list_all2 (\<lambda>r f. extract_needed_fields r = Inr f)
        [PyDict [(''businessName'', PyStr ''Acme Sub'')], PyDict [(''status'', PyStr ''active'')]]
        [\<lparr>business_name = PyStr ''Acme Sub'', registration_id = PyStr '''',
          status = PyStr '''', filing_date = PyStr '''', agent_name = PyStr '''',
          agent_address = PyStr '''', agent_email = PyStr ''''\<rparr>,
         \<lparr>business_name = PyStr '''', registration_id = PyStr '''',
          status = PyStr ''active'', filing_date = PyStr '''', agent_name = PyStr '''',
          agent_address = PyStr '''', agent_email = PyStr ''''\<rparr>]
   \<and> output_file (snd (iteration ''acme'' 1
        \<lparr>responses = always (Response 200 '''' (Inr (PyDict [(''error'', PyStr ''Rate limit''),
             (''results'', PyList [PyDict [(''businessName'', PyStr ''Acme Sub'')],
                                   PyDict [(''status'', PyStr ''active'')]])]))),
          operator = None\<rparr>
        (initial_state ''acme'' ''sid'' 4 None))) =
     [\<lparr>business_name = PyStr ''Acme Sub'', registration_id = PyStr '''',
       status = PyStr '''', filing_date = PyStr '''', agent_name = PyStr '''',
       agent_address = PyStr '''', agent_email = PyStr ''''\<rparr>,
      \<lparr>business_name = PyStr '''', registration_id = PyStr '''',
       status = PyStr ''active'', filing_date = PyStr '''', agent_name = PyStr '''',
       agent_address = PyStr '''', agent_email = PyStr ''''\<rparr>]
   \<and> total_results_collected (snd (iteration ''acme'' 1
        \<lparr>responses = always (Response 200 '''' (Inr (PyDict [(''error'', PyStr ''Rate limit''),
             (''results'', PyList [PyDict [(''businessName'', PyStr ''Acme Sub'')],
                                   PyDict [(''status'', PyStr ''active'')]])]))),
          operator = None\<rparr>
        (initial_state ''acme'' ''sid'' 4 None))) = 2"
  using fetch_other_error_is_success
    [where query = "''acme''" and st = "initial_state ''acme'' ''sid'' 4 None"
       and env = "\<lparr>responses = always (Response 200 '''' (Inr (PyDict [(''error'', PyStr ''Rate limit''),
             (''results'', PyList [PyDict [(''businessName'', PyStr ''Acme Sub'')],
                                   PyDict [(''status'', PyStr ''active'')]])]))),
          operator = None\<rparr>"
       and outcomes = "always (Response 200 '''' (Inr (PyDict [(''error'', PyStr ''Rate limit''),
             (''results'', PyList [PyDict [(''businessName'', PyStr ''Acme Sub'')],
                                   PyDict [(''status'', PyStr ''active'')]])])))"
       and attempt = 0 and max_retries = 2 and sc = 200 and http_error = "''''"
       and msg = "''Rate limit''" and page = 4 and session = "''sid''"
       and effs = "[HttpGet ''acme'' 4 ''sid'', Log ''acme'' (Page 4) SUCCESS (Retrieved 2)]"
       and kvs = "[(''error'', PyStr ''Rate limit''),
             (''results'', PyList [PyDict [(''businessName'', PyStr ''Acme Sub'')],
                                   PyDict [(''status'', PyStr ''active'')]])]"
       and rs = "[PyDict [(''businessName'', PyStr ''Acme Sub'')],
                  PyDict [(''status'', PyStr ''active'')]]"
       and fs = "[\<lparr>business_name = PyStr ''Acme Sub'', registration_id = PyStr '''',
           status = PyStr '''', filing_date = PyStr '''', agent_name = PyStr '''',
           agent_address = PyStr '''', agent_email = PyStr ''''\<rparr>,
          \<lparr>business_name = PyStr '''', registration_id = PyStr '''',
           status = PyStr ''active'', filing_date = PyStr '''', agent_name = PyStr '''',
           agent_address = PyStr '''', agent_email = PyStr ''''\<rparr>]"
       and delay = 1]
  by (simp add: run_defs)

text \<open>
  C10 as stated fails: the body below has an \<^verbatim>\<open>error\<close> text without "recaptcha" or
  "session" and carries a results array; the fetcher logs SUCCESS and returns it, and the
  driver then raises on the record whose \<^verbatim>\<open>agent\<close> is \<^verbatim>\<open>null\<close>: nothing is appended to
  the output file.
\<close>

theorem fetch_other_error_not_persisted:
  "fetch_all_pages ''acme'' ''sid'' '''' 1 1 None
     [\<lparr>responses = always (Response 200 ''''
          (Inr (PyDict [(''error'', PyStr ''Rate limit''),
                        (''results'', PyList [PyDict [(''agent'', PyNone)]]),
                        (''totalPages'', PyInt 3)]))),
       operator = None\<rparr>] =
     (Raised AttributeError,
      \<lparr>session_id = ''sid'', current_page = 1, total_pages = PyInt 3,
       total_results_collected = 0, output_file = [],
       trace = [Log ''acme'' START SESSION_START (StartingScrape ''acme''),
                HttpGet ''acme'' 1 ''sid'',
                Log ''acme'' (Page 1) SUCCESS (Retrieved 1)]\<rparr>)"
  by (simp add: run_defs driver_defs)

section \<open>Effects of a fetch\<close>

text \<open>Every attempt starts with the request, and the fetcher never prompts.\<close>

lemma try_body_starts_get:
  "\<exists>rest. fst (try_body query page session outcome) = HttpGet query page session # rest"
  by (cases outcome) (auto simp: try_body_def split: sum.split prod.split)

lemma attempt_once_starts_get:
  "\<exists>rest. fst (attempt_once query page session max_retries attempt outcome) =
     HttpGet query page session # rest"
proof -
  obtain effs r where tb: "try_body query page session outcome = (effs, r)"
    by (cases "try_body query page session outcome")
  obtain rest where "effs = HttpGet query page session # rest"
    using try_body_starts_get [of query page session outcome] tb by auto
  then show ?thesis
    by (cases r) (auto simp: attempt_once_def tb split: prod.split)
qed

lemma fetch_page_starts_get:
  "\<exists>rest. fst (fetch_page query page session outcomes 2) = HttpGet query page session # rest"
proof -
  obtain effs s where ao: "attempt_once query page session 2 0 (outcomes 0) = (effs, s)"
    by (cases "attempt_once query page session 2 0 (outcomes 0)")
  obtain rest where "effs = HttpGet query page session # rest"
    using attempt_once_starts_get [of query page session 2 0 "outcomes 0"] ao by auto
  then show ?thesis
    unfolding fetch_page_def
    by (subst fetch_loop.simps) (cases s; auto simp: ao split: prod.split)
qed

lemma check_body_no_prompt:
  "check_body query page data = (effs, r) \<Longrightarrow> Prompt p \<notin> set effs"
  by (auto simp: check_body_def split: sum.splits bool.splits)

lemma try_body_no_prompt:
  "try_body query page session outcome = (effs, r) \<Longrightarrow> Prompt p \<notin> set effs"
  by (cases outcome)
    (auto simp: try_body_def split: sum.splits prod.splits if_splits dest: check_body_no_prompt)

lemma handle_no_prompt:
  "handle query page max_retries attempt x = (effs, s) \<Longrightarrow> Prompt p \<notin> set effs"
  by (cases x) (auto simp: handle_def Let_def split: if_splits)

lemma attempt_once_no_prompt:
  "attempt_once query page session max_retries attempt outcome = (effs, s) \<Longrightarrow>
     Prompt p \<notin> set effs"
  by (auto simp: attempt_once_def split: prod.splits sum.splits
      dest: try_body_no_prompt handle_no_prompt)

lemma fetch_loop_no_prompt:
  "Prompt p \<notin> set (fst (fetch_loop query page session outcomes max_retries attempt))"
proof (induction query page session outcomes max_retries attempt rule: fetch_loop.induct)
  case (1 query page session outcomes max_retries attempt)
  show ?case
  proof (cases "attempt \<le> max_retries")
    case False
    then show ?thesis by (subst fetch_loop.simps) simp
  next
    case True
    obtain effs s where ao:
      "attempt_once query page session max_retries attempt (outcomes attempt) = (effs, s)"
      by (cases "attempt_once query page session max_retries attempt (outcomes attempt)")
    have effs: "Prompt p \<notin> set effs"
      using attempt_once_no_prompt [OF ao] .
    show ?thesis
    proof (cases s)
      case (Return r)
      then show ?thesis using True ao effs by (subst fetch_loop.simps) simp
    next
      case (Raise e)
      then show ?thesis using True ao effs by (subst fetch_loop.simps) simp
    next
      case Retry
      have "Prompt p \<notin> set (fst (fetch_loop query page session outcomes max_retries (attempt + 1)))"
        using "1.IH" [OF True ao [symmetric] Retry] .
      then show ?thesis
        using True ao effs Retry by (subst fetch_loop.simps) (auto split: prod.split)
    qed
  qed
qed

lemma fetch_page_no_prompt:
  "fetch_page query page session outcomes max_retries = (effs, r) \<Longrightarrow> Prompt p \<notin> set effs"
  using fetch_loop_no_prompt [of p query page session outcomes max_retries 0]
  by (simp add: fetch_page_def)

section \<open>Transitions of the driver\<close>

lemma renew_trace:
  "\<exists>rest. trace (snd (renew query answer st)) = trace st @ Prompt (current_page st) # rest"
  by (simp add: renew_def Let_def split: option.split)

text \<open>The stop word is recognised in any case and with such padding.\<close>

lemma renew_stop_word_padded:
  "renew query (Some (char_of (160::nat) # ''Quit'' @ [char_of (133::nat)])) st =
     (Break, st\<lparr>trace := trace st @
        [Prompt (current_page st), Log query (Page (current_page st)) STOPPED UserQuit]\<rparr>)"
  by (simp add: renew_def strip_def is_space_def lower_def lower_char_def)

text \<open>
  C1. When the fetch of the current page ends with the error type \<^verbatim>\<open>'403'\<close> or
  \<^verbatim>\<open>'timeout'\<close> and the operator answers the prompt with anything but the stop word, the
  pass replaces the session ID and nothing else: page cursor, page count, running total and
  output file are as before, the loop goes on from that state, and the next request is for
  the same page with the new session ID.
\<close>

theorem renewal_keeps_cursor:
  assumes "fetch_page query (current_page st) (session_id st) (responses env) 2 =
      (effs, Inr (PyNone, PyStr kind))"
    and "kind = ''403'' \<or> kind = ''timeout''"
    and "operator env = Some raw"
    and "lower (strip raw) \<noteq> ''quit''"
  shows "iteration query delay env st =
      (Continue, st\<lparr>session_id := strip raw,
         trace := trace st @ effs @
           [Prompt (current_page st),
            Log query (Page (current_page st)) NEW_SESSION
              (EnteredNewSession (current_page st))]\<rparr>)
    \<and> current_page (snd (iteration query delay env st)) = current_page st
    \<and> total_pages (snd (iteration query delay env st)) = total_pages st
    \<and> total_results_collected (snd (iteration query delay env st)) = total_results_collected st
    \<and> output_file (snd (iteration query delay env st)) = output_file st
    \<and> session_id (snd (iteration query delay env st)) = strip raw
    \<and> driver_loop query delay (env # envs) st =
        driver_loop query delay envs (snd (iteration query delay env st))
    \<and> (\<exists>rest. fst (fetch_page query (current_page (snd (iteration query delay env st)))
           (session_id (snd (iteration query delay env st))) outcomes 2) =
         HttpGet query (current_page st) (strip raw) # rest)"
proof -
  have it: "iteration query delay env st =
      (Continue, st\<lparr>session_id := strip raw,
         trace := trace st @ effs @
           [Prompt (current_page st),
            Log query (Page (current_page st)) NEW_SESSION
              (EnteredNewSession (current_page st))]\<rparr>)"
    using assms(2,3,4) by (auto simp: iteration_failure [OF assms(1)] renew_def Let_def)
  show ?thesis
    using fetch_page_starts_get [of query "current_page st" "strip raw" outcomes]
    by (simp add: it)
qed

theorem renewal_keeps_cursor_witness:
  "fetch_page ''acme'' 3 ''old'' (always (Response 403 '''' (Inl ''''))) 2 =
     ([HttpGet ''acme'' 3 ''old'', Log ''acme'' (Page 3) ERROR Forbidden403],
      Inr (PyNone, PyStr ''403''))
   \<and> lower (strip '' new '') \<noteq> ''quit''
   \<and> iteration ''acme'' 1
        \<lparr>responses = always (Response 403 '''' (Inl '''')), operator = Some '' new ''\<rparr>
        (initial_state ''acme'' ''old'' 3 None) =
     (Continue,
      \<lparr>session_id = ''new'', current_page = 3, total_pages = PyNone,
       total_results_collected = 0, output_file = [],
       trace = [Log ''acme'' START SESSION_START (StartingScrape ''acme''),
                HttpGet ''acme'' 3 ''old'', Log ''acme'' (Page 3) ERROR Forbidden403,
                Prompt 3, Log ''acme'' (Page 3) NEW_SESSION (EnteredNewSession 3)]\<rparr>)"
  using renewal_keeps_cursor
    [where query = "''acme''" and st = "initial_state ''acme'' ''old'' 3 None"
       and env = "\<lparr>responses = always (Response 403 '''' (Inl '''')), operator = Some '' new ''\<rparr>"
       and effs = "[HttpGet ''acme'' 3 ''old'', Log ''acme'' (Page 3) ERROR Forbidden403]"
       and kind = "''403''" and raw = "'' new ''" and delay = 1 and envs = "[]"
       and outcomes = "always GetTimeout"]
  by (simp add: run_defs)

text \<open>
  C5. A fetch that ends with \<^verbatim>\<open>'403'\<close> or \<^verbatim>\<open>'timeout'\<close> takes the driver to the
  operator prompt. A fetch that ends with \<^verbatim>\<open>'other'\<close> (retries used up) makes the driver
  log STOPPED and leave the loop; nothing in that pass prompts the operator.
\<close>

theorem failure_kinds_transition:
  "(fetch_page query (current_page st) (session_id st) (responses env) 2 =
       (effs, Inr (PyNone, PyStr kind))
     \<and> (kind = ''403'' \<or> kind = ''timeout'') \<longrightarrow>
      iteration query delay env st =
        renew query (operator env) (st\<lparr>trace := trace st @ effs\<rparr>)
      \<and> (\<exists>rest. trace (snd (iteration query delay env st)) =
            trace st @ effs @ Prompt (current_page st) # rest))
   \<and> (fetch_page query (current_page st) (session_id st) (responses env) 2 =
       (effs, Inr (PyNone, PyStr ''other'')) \<longrightarrow>
      iteration query delay env st =
        (Break, st\<lparr>trace := trace st @ effs @
           [Log query (Page (current_page st)) STOPPED FailedAfterRetries]\<rparr>)
      \<and> (\<forall>p. Prompt p \<notin> set (effs @
           [Log query (Page (current_page st)) STOPPED FailedAfterRetries])))"
proof (intro conjI impI)
  assume a: "fetch_page query (current_page st) (session_id st) (responses env) 2 =
       (effs, Inr (PyNone, PyStr kind)) \<and> (kind = ''403'' \<or> kind = ''timeout'')"
  then have f: "fetch_page query (current_page st) (session_id st) (responses env) 2 =
       (effs, Inr (PyNone, PyStr kind))" by simp
  show it: "iteration query delay env st =
        renew query (operator env) (st\<lparr>trace := trace st @ effs\<rparr>)"
    using a by (auto simp: iteration_failure [OF f])
  show "\<exists>rest. trace (snd (iteration query delay env st)) =
            trace st @ effs @ Prompt (current_page st) # rest"
    using renew_trace [of query "operator env" "st\<lparr>trace := trace st @ effs\<rparr>"]
    by (simp add: it)
next
  assume f: "fetch_page query (current_page st) (session_id st) (responses env) 2 =
       (effs, Inr (PyNone, PyStr ''other''))"
  show "iteration query delay env st =
        (Break, st\<lparr>trace := trace st @ effs @
           [Log query (Page (current_page st)) STOPPED FailedAfterRetries]\<rparr>)"
    by (simp add: iteration_failure [OF f])
  show "\<forall>p. Prompt p \<notin> set (effs @
           [Log query (Page (current_page st)) STOPPED FailedAfterRetries])"
    using fetch_page_no_prompt [OF f] by simp
qed

theorem failure_kinds_transition_witness:
  "fetch_page ''acme'' 3 ''sid'' (always GetTimeout) 2 =
     ([HttpGet ''acme'' 3 ''sid'', Log ''acme'' (Page 3) RETRY (TimeoutAttempt 1 3), Sleep 2,
       HttpGet ''acme'' 3 ''sid'', Log ''acme'' (Page 3) RETRY (TimeoutAttempt 2 3), Sleep 2,
       HttpGet ''acme'' 3 ''sid'', Log ''acme'' (Page 3) ERROR (TimeoutAfter 3)],
      Inr (PyNone, PyStr ''timeout''))
   \<and> iteration ''acme'' 1 \<lparr>responses = always GetTimeout, operator = Some ''quit''\<rparr>
        (initial_state ''acme'' ''sid'' 3 None) =
     renew ''acme'' (Some ''quit'')
       ((initial_state ''acme'' ''sid'' 3 None)
          \<lparr>trace := trace (initial_state ''acme'' ''sid'' 3 None) @
             [HttpGet ''acme'' 3 ''sid'', Log ''acme'' (Page 3) RETRY (TimeoutAttempt 1 3), Sleep 2,
              HttpGet ''acme'' 3 ''sid'', Log ''acme'' (Page 3) RETRY (TimeoutAttempt 2 3), Sleep 2,
              HttpGet ''acme'' 3 ''sid'', Log ''acme'' (Page 3) ERROR (TimeoutAfter 3)]\<rparr>)
   \<and> fetch_page ''acme'' 3 ''sid'' (always (GetError ''Connection refused'' None)) 2 =
     ([HttpGet ''acme'' 3 ''sid'',
       Log ''acme'' (Page 3) RETRY (AttemptFailed 1 3 ''Connection refused''), Sleep 2,
       HttpGet ''acme'' 3 ''sid'',
       Log ''acme'' (Page 3) RETRY (AttemptFailed 2 3 ''Connection refused''), Sleep 2,
       HttpGet ''acme'' 3 ''sid'',
       Log ''acme'' (Page 3) ERROR (FailedAfter 3 ''Connection refused'')],
      Inr (PyNone, PyStr ''other''))
   \<and> iteration ''acme'' 1
        \<lparr>responses = always (GetError ''Connection refused'' None), operator = Some ''new''\<rparr>
        (initial_state ''acme'' ''sid'' 3 None) =
     (Break,
      \<lparr>session_id = ''sid'', current_page = 3, total_pages = PyNone,
       total_results_collected = 0, output_file = [],
       trace = [Log ''acme'' START SESSION_START (StartingScrape ''acme''),
                HttpGet ''acme'' 3 ''sid'',
                Log ''acme'' (Page 3) RETRY (AttemptFailed 1 3 ''Connection refused''), Sleep 2,
                HttpGet ''acme'' 3 ''sid'',
                Log ''acme'' (Page 3) RETRY (AttemptFailed 2 3 ''Connection refused''), Sleep 2,
                HttpGet ''acme'' 3 ''sid'',
                Log ''acme'' (Page 3) ERROR (FailedAfter 3 ''Connection refused''),
                Log ''acme'' (Page 3) STOPPED FailedAfterRetries]\<rparr>)"
  using failure_kinds_transition
    [where query = "''acme''" and st = "initial_state ''acme'' ''sid'' 3 None"
       and env = "\<lparr>responses = always GetTimeout, operator = Some ''quit''\<rparr>"
       and effs = "[HttpGet ''acme'' 3 ''sid'', Log ''acme'' (Page 3) RETRY (TimeoutAttempt 1 3), Sleep 2,
              HttpGet ''acme'' 3 ''sid'', Log ''acme'' (Page 3) RETRY (TimeoutAttempt 2 3), Sleep 2,
              HttpGet ''acme'' 3 ''sid'', Log ''acme'' (Page 3) ERROR (TimeoutAfter 3)]"
       and kind = "''timeout''" and delay = 1]
    failure_kinds_transition
    [where query = "''acme''" and st = "initial_state ''acme'' ''sid'' 3 None"
       and env = "\<lparr>responses = always (GetError ''Connection refused'' None), operator = Some ''new''\<rparr>"
       and effs = "[HttpGet ''acme'' 3 ''sid'',
                Log ''acme'' (Page 3) RETRY (AttemptFailed 1 3 ''Connection refused''), Sleep 2,
                HttpGet ''acme'' 3 ''sid'',
                Log ''acme'' (Page 3) RETRY (AttemptFailed 2 3 ''Connection refused''), Sleep 2,
                HttpGet ''acme'' 3 ''sid'',
                Log ''acme'' (Page 3) ERROR (FailedAfter 3 ''Connection refused'')]"
       and kind = "''403''" and delay = 1]
  by (simp add: run_defs)

text \<open>
  C8 on the code. The operator answers the prompt with an empty line: the driver takes the
  empty string as the new session ID, logs NEW_SESSION and sends the next request for the
  same page with an empty session header. (\<^verbatim>\<open>main\<close> refuses an empty session ID at the
  start of the run; the prompt in the loop has no such check.)
\<close>

theorem renewal_accepts_empty_session:
  "fetch_all_pages ''acme'' ''sid'' '''' 1 1 None
     [\<lparr>responses = always (Response 403 '''' (Inl '''')), operator = Some ''''\<rparr>,
      \<lparr>responses = always (Response 403 '''' (Inl '''')), operator = Some ''quit''\<rparr>] =
     (Returned 0,
      \<lparr>session_id = '''', current_page = 1, total_pages = PyNone,
       total_results_collected = 0, output_file = [],
       trace = [Log ''acme'' START SESSION_START (StartingScrape ''acme''),
                HttpGet ''acme'' 1 ''sid'', Log ''acme'' (Page 1) ERROR Forbidden403,
                Prompt 1, Log ''acme'' (Page 1) NEW_SESSION (EnteredNewSession 1),
                HttpGet ''acme'' 1 '''', Log ''acme'' (Page 1) ERROR Forbidden403,
                Prompt 1, Log ''acme'' (Page 1) STOPPED UserQuit]\<rparr>)"
  by (simp add: run_defs driver_defs)

text \<open>
  C6, as the code has it. With an integer page count \<open>n\<close>, the driver is done exactly when
  the cursor is at or beyond \<open>n\<close>; it then logs COMPLETED with the running total. Otherwise,
  for a delay that \<^verbatim>\<open>time.sleep\<close> accepts (not negative, within the range of the clock), it
  moves the cursor on by one, sleeps for the delay between pages and goes on fetching.
\<close>

theorem advance_by_comparison:
  assumes "total_pages st = PyInt n"
  shows "(fst (advance query delay st) = Break \<longleftrightarrow> current_page st \<ge> n)
    \<and> (current_page st \<ge> n \<longrightarrow>
         advance query delay st =
           (Break, st\<lparr>trace := trace st @
              [Log query (PageRange (PyInt n)) COMPLETED
                 (AllPagesFetched (total_results_collected st))]\<rparr>))
    \<and> (current_page st < n \<and> 0 \<le> delay \<and> delay * 10 ^ 9 < 2 ^ 63 \<longrightarrow>
         advance query delay st =
           (Continue, st\<lparr>current_page := current_page st + 1,
              trace := trace st @ [Sleep delay]\<rparr>))"
proof (cases "n \<le> current_page st")
  case True
  then show ?thesis using assms by (simp add: advance_def Let_def)
next
  case False
  have low: "\<not> delay * 10 ^ 9 < - (2 ^ 63)" if "0 \<le> delay"
  proof -
    have "0 \<le> delay * 10 ^ 9" using that by simp
    moreover have "- (2 ^ 63) < (0::real)" by simp
    ultimately show ?thesis by linarith
  qed
  have brk: "fst (advance query delay st) \<noteq> Break"
    using False assms
    by (simp add: advance_def time_sleep_def Let_def split: sum.split bool.split)
  have cont: "advance query delay st =
      (Continue, st\<lparr>current_page := current_page st + 1, trace := trace st @ [Sleep delay]\<rparr>)"
    if "0 \<le> delay" and "delay * 10 ^ 9 < 2 ^ 63"
    using False assms that low [OF that(1)]
    by (simp add: advance_def time_sleep_def Let_def)
  show ?thesis using False brk cont by simp
qed

theorem advance_by_comparison_witness:
  "advance ''acme'' 1
     \<lparr>session_id = ''sid'', current_page = 7, total_pages = PyInt 5,
      total_results_collected = 0, output_file = [], trace = []\<rparr> =
     (Break,
      \<lparr>session_id = ''sid'', current_page = 7, total_pages = PyInt 5,
       total_results_collected = 0, output_file = [],
       trace = [Log ''acme'' (PageRange (PyInt 5)) COMPLETED (AllPagesFetched 0)]\<rparr>)
   \<and> (0::real) \<le> 1 \<and> (1::real) * 10 ^ 9 < 2 ^ 63
   \<and> advance ''acme'' 1
     \<lparr>session_id = ''sid'', current_page = 2, total_pages = PyInt 5,
      total_results_collected = 0, output_file = [], trace = []\<rparr> =
     (Continue,
      \<lparr>session_id = ''sid'', current_page = 3, total_pages = PyInt 5,
       total_results_collected = 0, output_file = [], trace = [Sleep 1]\<rparr>)"
  using advance_by_comparison
    [where st = "\<lparr>session_id = ''sid'', current_page = 7, total_pages = PyInt 5,
      total_results_collected = 0, output_file = [], trace = []\<rparr>" and n = 5
      and query = "''acme''" and delay = 1]
    advance_by_comparison
    [where st = "\<lparr>session_id = ''sid'', current_page = 2, total_pages = PyInt 5,
      total_results_collected = 0, output_file = [], trace = []\<rparr>" and n = 5
      and query = "''acme''" and delay = 1]
  by simp

text \<open>
  C6 as stated fails: a run started at page 7, against a service that reports 5 pages, ends
  as completed on its first page, with the cursor at 7 and the page count at 5. And with a
  negative delay between pages (which \<^verbatim>\<open>main\<close> accepts) the driver moves the cursor on and
  then raises instead of going on fetching.
\<close>

theorem advance_done_beyond_last_page:
  "fetch_all_pages ''acme'' ''sid'' '''' 7 1 None
     [\<lparr>responses = always (Response 200 ''''
          (Inr (PyDict [(''results'', PyList []), (''total'', PyInt 40),
                        (''totalPages'', PyInt 5)]))),
       operator = None\<rparr>] =
     (Returned 0,
      \<lparr>session_id = ''sid'', current_page = 7, total_pages = PyInt 5,
       total_results_collected = 0, output_file = [],
       trace = [Log ''acme'' START SESSION_START (StartingScrape ''acme''),
                HttpGet ''acme'' 7 ''sid'', Log ''acme'' (Page 7) SUCCESS (Retrieved 0),
                AppendResults [],
                Log ''acme'' (PageRange (PyInt 5)) COMPLETED (AllPagesFetched 0)]\<rparr>)
   \<and> advance ''acme'' (- 1)
     \<lparr>session_id = ''sid'', current_page = 2, total_pages = PyInt 5,
      total_results_collected = 0, output_file = [], trace = []\<rparr> =
     (Crash ValueError,
      \<lparr>session_id = ''sid'', current_page = 3, total_pages = PyInt 5,
       total_results_collected = 0, output_file = [], trace = []\<rparr>)"
  by (simp add: run_defs driver_defs)

text \<open>
  C9, as the code has it. When the page count is still unknown and the page fetched has no
  \<^verbatim>\<open>totalPages\<close> key, the count becomes 1. From a cursor of at least 1, and when the page
  carries a results array (or none) whose records the extractor accepts, the driver appends
  the extractor's output for each record, in order, logs COMPLETED and returns, whatever the
  outside would do next.
\<close>

theorem missing_total_pages_is_one:
  assumes "total_pages st = PyNone"
    and "1 \<le> current_page st"
    and "fetch_page query (current_page st) (session_id st) (responses env) 2 =
      (effs, Inr (PyDict kvs, PyNone))"
    and "map_of kvs ''totalPages'' = None"
    and "map_of kvs ''results'' = None \<and> rs = [] \<or> map_of kvs ''results'' = Some (PyList rs)"
    and "list_all2 (\<lambda>r f. extract_needed_fields r = Inr f) rs fs"
  shows "iteration query delay env st =
      (Break, st\<lparr>total_pages := PyInt 1,
         total_results_collected := total_results_collected st + int (length rs),
         output_file := output_file st @ fs,
         trace := trace st @ effs @
           [AppendResults fs,
            Log query (PageRange (PyInt 1)) COMPLETED
              (AllPagesFetched (total_results_collected st + int (length rs)))]\<rparr>)
    \<and> driver_loop query delay (env # envs) st =
        (Returned (total_results_collected st + int (length rs)),
         snd (iteration query delay env st))"
proof -
  define st1 where "st1 = st\<lparr>trace := trace st @ effs, total_pages := PyInt 1\<rparr>"
  define st2 where "st2 =
     st1\<lparr>total_results_collected := total_results_collected st1 + int (length fs),
         output_file := output_file st1 @ fs,
         trace := trace st1 @ [AppendResults fs]\<rparr>"
  have len: "length fs = length rs"
    using list_all2_lengthD [OF assms(6)] by simp
  have c: "capture_total (PyDict kvs) (st\<lparr>trace := trace st @ effs\<rparr>) = Inr st1"
    using assms(1,4) by (simp add: capture_total_dict st1_def)
  have p: "persist (PyDict kvs) st1 = Inr st2"
    using persist_ok [OF assms(5,6), of st1] by (simp add: st2_def)
  have a: "advance query delay st2 =
      (Break, st2\<lparr>trace := trace st2 @
         [Log query (PageRange (PyInt 1)) COMPLETED
            (AllPagesFetched (total_results_collected st2))]\<rparr>)"
    using assms(2) by (simp add: advance_def st2_def st1_def)
  have it: "iteration query delay env st =
      (Break, st2\<lparr>trace := trace st2 @
         [Log query (PageRange (PyInt 1)) COMPLETED
            (AllPagesFetched (total_results_collected st2))]\<rparr>)"
    by (simp add: iteration_success [OF assms(3)] process_page_def c p a)
  show ?thesis
    by (simp add: it) (simp add: st2_def st1_def len)
qed

theorem missing_total_pages_is_one_witness:
  "fetch_page ''acme'' 4 ''sid''
     (always (Response 200 '''' (Inr (PyDict [(''results'',
        PyList [PyDict [(''businessName'', PyStr ''Acme Sub'')],
                PyDict [(''status'', PyStr ''active'')]])])))) 2 =
     ([HttpGet ''acme'' 4 ''sid'', Log ''acme'' (Page 4) SUCCESS (Retrieved 2)],
      Inr (PyDict [(''results'', PyList [PyDict [(''businessName'', PyStr ''Acme Sub'')],
                                        PyDict [(''status'', PyStr ''active'')]])],
           PyNone))
   \<and> list_all2 (\<lambda>r f. extract_needed_fields r = Inr f)
        [PyDict [(''businessName'', PyStr ''Acme Sub'')], PyDict [(''status'', PyStr ''active'')]]
        [\<lparr>business_name = PyStr ''Acme Sub'', registration_id = PyStr '''',
          status = PyStr '''', filing_date = PyStr '''', agent_name = PyStr '''',
          agent_address = PyStr '''', agent_email = PyStr ''''\<rparr>,
         \<lparr>business_name = PyStr '''', registration_id = PyStr '''',
          status = PyStr ''active'', filing_date = PyStr '''', agent_name = PyStr '''',
          agent_address = PyStr '''', agent_email = PyStr ''''\<rparr>]
   \<and> driver_loop ''acme'' 1
        [\<lparr>responses = always (Response 200 '''' (Inr (PyDict [(''results'',
             PyList [PyDict [(''businessName'', PyStr ''Acme Sub'')],
                     PyDict [(''status'', PyStr ''active'')]])]))),
          operator = None\<rparr>,
         \<lparr>responses = always GetTimeout, operator = None\<rparr>]
        (initial_state ''acme'' ''sid'' 4 None) =
     (Returned 2,
      \<lparr>session_id = ''sid'', current_page = 4, total_pages = PyInt 1,
       total_results_collected = 2,
       output_file =
         [\<lparr>business_name = PyStr ''Acme Sub'', registration_id = PyStr '''',
           status = PyStr '''', filing_date = PyStr '''', agent_name = PyStr '''',
           agent_address = PyStr '''', agent_email = PyStr ''''\<rparr>,
          \<lparr>business_name = PyStr '''', registration_id = PyStr '''',
           status = PyStr ''active'', filing_date = PyStr '''', agent_name = PyStr '''',
           agent_address = PyStr '''', agent_email = PyStr ''''\<rparr>],
       trace = [Log ''acme'' START SESSION_START (StartingScrape ''acme''),
                HttpGet ''acme'' 4 ''sid'', Log ''acme'' (Page 4) SUCCESS (Retrieved 2),
                AppendResults
                  [\<lparr>business_name = PyStr ''Acme Sub'', registration_id = PyStr '''',
                    status = PyStr '''', filing_date = PyStr '''', agent_name = PyStr '''',
                    agent_address = PyStr '''', agent_email = PyStr ''''\<rparr>,
                   \<lparr>business_name = PyStr '''', registration_id = PyStr '''',
                    status = PyStr ''active'', filing_date = PyStr '''', agent_name = PyStr '''',
                    agent_address = PyStr '''', agent_email = PyStr ''''\<rparr>],
                Log ''acme'' (PageRange (PyInt 1)) COMPLETED (AllPagesFetched 2)]\<rparr>)"
  using missing_total_pages_is_one
    [where query = "''acme''" and st = "initial_state ''acme'' ''sid'' 4 None"
       and env = "\<lparr>responses = always (Response 200 '''' (Inr (PyDict [(''results'',
             PyList [PyDict [(''businessName'', PyStr ''Acme Sub'')],
                     PyDict [(''status'', PyStr ''active'')]])]))),
          operator = None\<rparr>"
       and effs = "[HttpGet ''acme'' 4 ''sid'', Log ''acme'' (Page 4) SUCCESS (Retrieved 2)]"
       and kvs = "[(''results'', PyList [PyDict [(''businessName'', PyStr ''Acme Sub'')],
                                        PyDict [(''status'', PyStr ''active'')]])]"
       and rs = "[PyDict [(''businessName'', PyStr ''Acme Sub'')],
                  PyDict [(''status'', PyStr ''active'')]]"
       and fs = "[\<lparr>business_name = PyStr ''Acme Sub'', registration_id = PyStr '''',
           status = PyStr '''', filing_date = PyStr '''', agent_name = PyStr '''',
           agent_address = PyStr '''', agent_email = PyStr ''''\<rparr>,
          \<lparr>business_name = PyStr '''', registration_id = PyStr '''',
           status = PyStr ''active'', filing_date = PyStr '''', agent_name = PyStr '''',
           agent_address = PyStr '''', agent_email = PyStr ''''\<rparr>]"
       and delay = 1 and envs = "[\<lparr>responses = always GetTimeout, operator = None\<rparr>]"]
  by (simp add: run_defs)

text \<open>
  C9 as stated fails: the first page below has no \<^verbatim>\<open>totalPages\<close> key and the run starts
  at page 1; the driver sets the page count to 1, then raises on the record whose
  \<^verbatim>\<open>agent\<close> is \<^verbatim>\<open>null\<close>. Nothing is appended, COMPLETED is not logged and the function
  does not return.
\<close>

theorem missing_total_pages_not_done:
  "fetch_all_pages ''acme'' ''sid'' '''' 1 1 None
     [\<lparr>responses = always (Response 200 ''''
          (Inr (PyDict [(''results'', PyList [PyDict [(''agent'', PyNone)]])]))),
       operator = None\<rparr>] =
     (Raised AttributeError,
      \<lparr>session_id = ''sid'', current_page = 1, total_pages = PyInt 1,
       total_results_collected = 0, output_file = [],
       trace = [Log ''acme'' START SESSION_START (StartingScrape ''acme''),
                HttpGet ''acme'' 1 ''sid'',
                Log ''acme'' (Page 1) SUCCESS (Retrieved 1)]\<rparr>)"
  by (simp add: run_defs driver_defs)

end
